theory Spec2Isabelle
  imports Complex_Main
begin

section \<open>JavaScript values\<close>

text \<open>
  The values that travel through the relay are JSON values: the decoded JWT payload, the
  array of a subscribe request, the body of an HTTP answer. A JavaScript number is
  modelled as a real (exact arithmetic, no rounding, no NaN inside a JSON value); an
  object is the list of its key/value pairs. \<open>undefined\<close> is not a JSON value: an
  expression that may be \<open>undefined\<close> has type \<open>json option\<close>, with \<open>None\<close> for
  \<open>undefined\<close>.
\<close>

datatype json =
    JNull
  | JBool bool
  | JNum real
  | JStr string
  | JArr "json list"
  | JObj "(string \<times> json) list"

text \<open>JavaScript truthiness: \<open>null\<close>, \<open>false\<close>, \<open>0\<close> and \<open>""\<close> are falsy, every array and object is truthy.\<close>

fun truthy :: "json \<Rightarrow> bool" where
  "truthy JNull = False"
| "truthy (JBool b) = b"
| "truthy (JNum n) = (n \<noteq> 0)"
| "truthy (JStr s) = (s \<noteq> [])"
| "truthy (JArr xs) = True"
| "truthy (JObj kvs) = True"



text \<open>An exception: \<open>error.name\<close> and \<open>error.message\<close>.\<close>

datatype js_error = Error string string

fun error_name :: "js_error \<Rightarrow> string" where
  "error_name (Error name message) = name"

fun error_message :: "js_error \<Rightarrow> string" where
  "error_message (Error name message) = message"

text \<open>
  Reading the property \<open>k\<close> of a value, for the keys the programs read (\<open>alg\<close>, \<open>type\<close>,
  \<open>data\<close>, \<open>broadcasted\<close>, \<open>id\<close>): an object answers its field or \<open>undefined\<close>, \<open>null\<close>
  throws a \<open>TypeError\<close>, and a boolean, number, string or array has no such property.
  An object lists each key once.
\<close>

fun get_prop :: "json \<Rightarrow> string \<Rightarrow> js_error + json option" where
  "get_prop JNull k =
     Inl (Error ''TypeError''
            (''Cannot read properties of null (reading '' @ [CHR 0x27] @ k @ [CHR 0x27] @ '')''))"
| "get_prop (JObj kvs) k = Inr (map_of kvs k)"
| "get_prop (JBool b) k = Inr None"
| "get_prop (JNum n) k = Inr None"
| "get_prop (JStr s) k = Inr None"
| "get_prop (JArr xs) k = Inr None"


text \<open>Decimal rendering of a natural number, as a template string renders it.\<close>

definition digit_char :: "nat \<Rightarrow> char" where
  "digit_char d = ''0123456789'' ! d"

function show_nat :: "nat \<Rightarrow> string" where
  "show_nat n = (if n < 10 then [digit_char n] else show_nat (n div 10) @ [digit_char (n mod 10)])"
  by pat_completeness auto
termination
  by (relation "measure id") auto

declare show_nat.simps [simp del]

section \<open>The retry client (test-rate-limit-retry.js)\<close>


definition INITIAL_RETRY_DELAY :: real where
  "INITIAL_RETRY_DELAY = 1000"

definition MAX_RETRY_DELAY :: real where
  "MAX_RETRY_DELAY = 60000"

text \<open>
  The local \<open>delay\<close> of \<open>calculateRetryDelay\<close>:
  \<open>Math.min(INITIAL_RETRY_DELAY * Math.pow(2, attempt), MAX_RETRY_DELAY)\<close>, in milliseconds.
\<close>

definition base_delay :: "nat \<Rightarrow> real" where
  "base_delay attempt = min (INITIAL_RETRY_DELAY * 2 ^ attempt) MAX_RETRY_DELAY"

text \<open>
  \<open>retryAfter * 1000\<close>. The multiplication converts its left operand to a number. For a
  number that is the number itself; for any other value (the text of a \<open>Retry-After\<close>
  header, say) the conversion is the language's, taken here as the parameter \<open>coerce\<close>,
  which answers \<open>None\<close> for NaN. The product is the exact one: the rounding of a double,
  and its overflow to \<open>Infinity\<close> beyond about \<open>1.8e305\<close> seconds, are not modelled.
\<close>

definition times_1000 :: "(json \<Rightarrow> real option) \<Rightarrow> json \<Rightarrow> real option" where
  "times_1000 coerce v =
     (case v of
        JNum n \<Rightarrow> Some (n * 1000)
      | _ \<Rightarrow> map_option (\<lambda>n. n * 1000) (coerce v))"

text \<open>
  \<open>calculateRetryDelay(attempt, retryAfter = null)\<close>. \<open>rnd\<close> is the value that
  \<open>Math.random()\<close> returns when it is called, a number in \<open>[0, 1)\<close>; the result is in
  milliseconds, \<open>None\<close> standing for NaN.
\<close>

definition calculateRetryDelay ::
    "(json \<Rightarrow> real option) \<Rightarrow> real \<Rightarrow> nat \<Rightarrow> json option \<Rightarrow> real option" where
  "calculateRetryDelay coerce rnd attempt retryAfter =
     (case retryAfter of
        Some v \<Rightarrow>
          if truthy v then times_1000 coerce v
          else (let delay = base_delay attempt; jitter = rnd * 1000 in Some (delay + jitter))
      | None \<Rightarrow>
          (let delay = base_delay attempt; jitter = rnd * 1000 in Some (delay + jitter)))"











section \<open>The relay server (server.js)\<close>

subsection \<open>Configuration and library calls\<close>

definition ALLOWED_ALGORITHM :: string where
  "ALLOWED_ALGORITHM = ''HS256''"

definition RATE_LIMIT_WINDOW_MS :: int where
  "RATE_LIMIT_WINDOW_MS = 60 * 1000"

definition RATE_LIMIT_WARNING_INTERVAL :: int where
  "RATE_LIMIT_WARNING_INTERVAL = 5000"

text \<open>
  The environment of the process: \<open>DIALPAD_WEBHOOK_SECRET\<close> (\<open>None\<close> when unset),
  \<open>DEBUG === 'true'\<close>, and what \<open>parseInt\<close> makes of \<open>RATE_LIMIT_MAX\<close> (\<open>None\<close> for
  NaN).
\<close>

record config =
  WEBHOOK_SECRET :: "string option"
  DEBUG :: bool
  rate_limit_max_env :: "int option"

text \<open>\<open>parseInt(process.env.RATE_LIMIT_MAX) || 1200\<close>\<close>

definition RATE_LIMIT_MAX :: "config \<Rightarrow> int" where
  "RATE_LIMIT_MAX cfg =
     (case rate_limit_max_env cfg of
        None \<Rightarrow> 1200
      | Some n \<Rightarrow> if n = 0 then 1200 else n)"

definition show_int :: "int \<Rightarrow> string" where
  "show_int i = (if i < 0 then CHR ''-'' # show_nat (nat (- i)) else show_nat (nat i))"

text \<open>
  The calls into the language and into the packages the server requires, none of them
  code of this repository, are parameters of the model:
  \<^item> \<open>parse_header s\<close> is \<open>JSON.parse(Buffer.from(s, 'base64').toString())\<close>: the parsed
    value, or the message of the \<open>SyntaxError\<close> that \<open>JSON.parse\<close> throws;
  \<^item> \<open>jwt_verify token secret\<close> is \<open>jwt.verify(token, secret, {algorithms: ['HS256']})\<close>:
    the decoded payload, or the exception thrown (\<open>JsonWebTokenError\<close>,
    \<open>TokenExpiredError\<close>, \<open>NotBeforeError\<close>);
  \<^item> \<open>stringify\<close> is \<open>JSON.stringify\<close>;
  \<^item> \<open>to_str\<close> is the conversion a template string applies to a value;
  \<^item> \<open>toISOString t\<close> is \<open>new Date(t).toISOString()\<close>.
\<close>

record lib =
  parse_header :: "string \<Rightarrow> string + json"
  jwt_verify :: "string \<Rightarrow> string \<Rightarrow> js_error + json"
  stringify :: "json \<Rightarrow> string"
  to_str :: "json option \<Rightarrow> string"
  toISOString :: "int \<Rightarrow> string"

subsection \<open>The state of the server\<close>

record client_info =
  client_id :: string
  ip :: string
  connectedAt :: int
  eventsReceived :: nat

text \<open>
  Modelled from the spec: the admission window state of one source key (section 3), which
  the rate limiting package keeps and the sources do not show.
\<close>

record window =
  windowStart :: int
  count :: nat

text \<open>
  The module's variables (\<open>connectedClients\<close>, \<open>clientInfo\<close>, \<open>rateLimitWarningCount\<close>,
  \<open>lastRateLimitWarning\<close>), the sockets that Socket.IO holds connected, each with the set
  of rooms it has joined, and the windows that the rate limiting middleware holds. The
  \<open>Map\<close> is the list of its entries in insertion order.
\<close>

record state =
  connectedClients :: int
  clientInfo :: "(string \<times> client_info) list"
  sockets :: "(string \<times> json set) list"
  rateLimitWarningCount :: nat
  lastRateLimitWarning :: int
  windows :: "string \<Rightarrow> window option"

definition init_state :: state where
  "init_state =
     \<lparr>connectedClients = 0, clientInfo = [], sockets = [],
      rateLimitWarningCount = 0, lastRateLimitWarning = 0, windows = (\<lambda>k. None)\<rparr>"

text \<open>\<open>Map.prototype.set\<close>: an existing key keeps its place, a new key goes last.\<close>

fun map_set :: "'k \<Rightarrow> 'v \<Rightarrow> ('k \<times> 'v) list \<Rightarrow> ('k \<times> 'v) list" where
  "map_set k v [] = [(k, v)]"
| "map_set k v ((k', v') # m) = (if k' = k then (k, v) # m else (k', v') # map_set k v m)"

text \<open>\<open>Map.prototype.delete\<close>\<close>

definition map_delete :: "'k \<Rightarrow> ('k \<times> 'v) list \<Rightarrow> ('k \<times> 'v) list" where
  "map_delete k m = filter (\<lambda>kv. fst kv \<noteq> k) m"

text \<open>A message on a socket: the socket's id, the event name, the payload.\<close>

type_synonym message = "string \<times> string \<times> json"

subsection \<open>Socket.IO rooms\<close>

text \<open>
  Socket.IO keeps rooms in a \<open>Set\<close> and a \<open>Map\<close> keyed by the room: two strings, numbers,
  booleans or \<open>null\<close>s name the same room when they are equal, while an array or an
  object is a key only for itself, so a room named by one is never addressed again.
\<close>

fun primitive :: "json \<Rightarrow> bool" where
  "primitive (JArr xs) = False"
| "primitive (JObj kvs) = False"
| "primitive v = True"

text \<open>\<open>socket.join(rooms)\<close> with an array: the socket's rooms grow by the array's elements.\<close>

definition socket_join :: "json list \<Rightarrow> json set \<Rightarrow> json set" where
  "socket_join xs rooms = rooms \<union> set (filter primitive xs)"

text \<open>
  The rooms that \<open>io.to(room)\<close> addresses: the room itself, or the elements when it is an
  array. \<open>undefined\<close> names a room that no socket is in, as no message from a consumer
  carries \<open>undefined\<close>.
\<close>

fun target_rooms :: "json option \<Rightarrow> json set" where
  "target_rooms None = {}"
| "target_rooms (Some (JArr xs)) = set (filter primitive xs)"
| "target_rooms (Some (JObj kvs)) = {}"
| "target_rooms (Some JNull) = {JNull}"
| "target_rooms (Some (JBool b)) = {JBool b}"
| "target_rooms (Some (JNum n)) = {JNum n}"
| "target_rooms (Some (JStr s)) = {JStr s}"

text \<open>
  The event names that Socket.IO keeps for itself: \<open>emit\<close> throws an \<open>Error\<close> when it is
  given one of them.
\<close>

definition RESERVED_EVENTS :: "string list" where
  "RESERVED_EVENTS =
     [''connect'', ''connect_error'', ''disconnect'', ''disconnecting'', ''newListener'',
      ''removeListener'']"

definition reserved :: "json option \<Rightarrow> bool" where
  "reserved ev = (case ev of Some (JStr s) \<Rightarrow> s \<in> set RESERVED_EVENTS | _ \<Rightarrow> False)"

text \<open>The sockets that \<open>io.emit(...)\<close> reaches: every connected socket.\<close>

definition io_emit :: "state \<Rightarrow> string list" where
  "io_emit st = map fst (sockets st)"

text \<open>The sockets that \<open>io.to(room).emit(...)\<close> reaches: those that have joined an addressed room.\<close>

definition io_to_emit :: "json option \<Rightarrow> state \<Rightarrow> string list" where
  "io_to_emit room st =
     map fst (filter (\<lambda>s. snd s \<inter> target_rooms room \<noteq> {}) (sockets st))"

subsection \<open>The connection handlers\<close>

text \<open>
  \<open>io.on('connection', ...)\<close> up to the welcome message. Socket.IO has registered the
  socket before it calls the handler, in the room named by the socket's own id, which
  every socket joins on connecting.
\<close>

definition connection :: "lib \<Rightarrow> string \<Rightarrow> string \<Rightarrow> int \<Rightarrow> state \<Rightarrow> state \<times> message list" where
  "connection l clientId clientIp now st =
     (st\<lparr>sockets := sockets st @ [(clientId, {JStr clientId})],
         connectedClients := connectedClients st + 1,
         clientInfo := map_set clientId
            \<lparr>client_id = clientId, ip = clientIp, connectedAt = now, eventsReceived = 0\<rparr>
            (clientInfo st)\<rparr>,
      [(clientId, ''connected'',
        JObj [(''message'', JStr ''Connected to Dialpad WebSocket server''),
              (''clientId'', JStr clientId),
              (''timestamp'', JStr (toISOString l now))])])"

text \<open>
  \<open>socket.on('subscribe', (eventTypes) => ...)\<close> for the socket \<open>clientId\<close>: an array is
  joined and acknowledged, anything else is ignored.
\<close>

definition subscribe :: "string \<Rightarrow> json \<Rightarrow> state \<Rightarrow> state \<times> message list" where
  "subscribe clientId eventTypes st =
     (case eventTypes of
        JArr xs \<Rightarrow>
          (st\<lparr>sockets := map (\<lambda>s. if fst s = clientId then (fst s, socket_join xs (snd s)) else s)
                           (sockets st)\<rparr>,
           [(clientId, ''subscribed'', JObj [(''eventTypes'', eventTypes)])])
      | _ \<Rightarrow> (st, []))"

text \<open>\<open>socket.on('ping', ...)\<close>\<close>

definition ping :: "lib \<Rightarrow> string \<Rightarrow> int \<Rightarrow> state \<Rightarrow> state \<times> message list" where
  "ping l clientId now st =
     (st, [(clientId, ''pong'', JObj [(''timestamp'', JStr (toISOString l now))])])"

text \<open>
  \<open>socket.on('disconnect', ...)\<close>: Socket.IO has dropped the socket, with its rooms, and
  the handler forgets the client.
\<close>

definition disconnect :: "string \<Rightarrow> state \<Rightarrow> state" where
  "disconnect clientId st =
     st\<lparr>sockets := filter (\<lambda>s. fst s \<noteq> clientId) (sockets st),
        connectedClients := connectedClients st - 1,
        clientInfo := map_delete clientId (clientInfo st)\<rparr>"

subsection \<open>The webhook endpoint\<close>

record response =
  status :: nat
  body :: "(string \<times> json) list"

text \<open>The envelope that is broadcast: \<open>{type: eventType, data: eventData, timestamp}\<close>.\<close>

record event =
  ev_type :: "json option"
  ev_data :: json
  ev_timestamp :: string

text \<open>
  What one request comes to: the HTTP answer, the envelope if one was built and emitted,
  the sockets that \<open>io.emit('dialpad:event', event)\<close> reached and the sockets that
  \<open>io.to(eventType).emit(eventType, event)\<close> reached.
\<close>

record outcome =
  response :: response
  broadcast :: "event option"
  global_to :: "string list"
  scoped_to :: "string list"

definition answer_only :: "response \<Rightarrow> outcome" where
  "answer_only r = \<lparr>response = r, broadcast = None, global_to = [], scoped_to = []\<rparr>"

text \<open>
  The request body after the middleware: text (\<open>express.text\<close>), a buffer, or a parsed
  JSON value (\<open>express.json\<close>).
\<close>

datatype req_body = Text string | Buffer string | Object json

text \<open>
  \<open>String.prototype.trim\<close>. A string is the list of its code units, and a character of
  the model is a code unit below 256; the white space and line terminators of the
  language in that range are the five controls from TAB to CR, the space and the
  no-break space U+00A0. The others (U+1680, U+2000 to U+200A, U+2028, U+2029, U+202F,
  U+205F, U+3000, U+FEFF) lie above the range and are not characters of the model.
\<close>

definition is_space :: "char \<Rightarrow> bool" where
  "is_space c = (c \<in> {CHR 0x09, CHR 0x0A, CHR 0x0B, CHR 0x0C, CHR 0x0D, CHR 0x20, CHR 0xA0})"

definition trim :: "string \<Rightarrow> string" where
  "trim s = rev (dropWhile is_space (rev (dropWhile is_space s)))"

text \<open>
  \<open>.replace(/^["']|["']$/g, '')\<close>: a quote at the start is removed, and so is a quote
  at the end of what is left.
\<close>

definition is_quote :: "char \<Rightarrow> bool" where
  "is_quote c = (c = CHR 0x22 \<or> c = CHR 0x27)"

definition strip_quotes :: "string \<Rightarrow> string" where
  "strip_quotes s =
     (let s1 = (case s of [] \<Rightarrow> [] | c # cs \<Rightarrow> if is_quote c then cs else s)
      in if s1 \<noteq> [] \<and> is_quote (last s1) then butlast s1 else s1)"

text \<open>\<open>token.split('.')\<close>\<close>

fun split_dot :: "string \<Rightarrow> string list" where
  "split_dot [] = [[]]"
| "split_dot (c # cs) =
     (if c = CHR ''.'' then [] # split_dot cs
      else (case split_dot cs of [] \<Rightarrow> [[c]] | p # ps \<Rightarrow> (c # p) # ps))"

text \<open>Lines 154 to 163 of the handler: the token as a trimmed, unquoted string.\<close>

definition read_token :: "lib \<Rightarrow> req_body \<Rightarrow> string" where
  "read_token l b =
     (let token = (case b of Buffer s \<Rightarrow> s | Object v \<Rightarrow> stringify l v | Text s \<Rightarrow> s)
      in strip_quotes (trim token))"

text \<open>
  A step of the handler's \<open>try\<close> block either answers the request (\<open>return res.status(...)\<close>),
  throws, or goes on with a value.
\<close>

datatype 'a step = Return response | Throw js_error | Continue 'a

text \<open>\<open>!WEBHOOK_SECRET\<close> fails for a secret that is set and not empty.\<close>

fun secret_of :: "config \<Rightarrow> string option" where
  "secret_of cfg =
     (case WEBHOOK_SECRET cfg of
        None \<Rightarrow> None
      | Some s \<Rightarrow> if s = [] then None else Some s)"

text \<open>
  Lines 165 to 196: the checks on the token, the header's algorithm and the signature.
  The result is \<open>decoded\<close>, the verified payload.
\<close>

definition check_token :: "lib \<Rightarrow> config \<Rightarrow> string \<Rightarrow> json step" where
  "check_token l cfg token =
     (if token = [] then
        Return \<lparr>status = 400, body = [(''error'', JStr ''No token provided'')]\<rparr>
      else case secret_of cfg of
        None \<Rightarrow> Return \<lparr>status = 500, body = [(''error'', JStr ''Server configuration error'')]\<rparr>
      | Some secret \<Rightarrow>
          (let tokenParts = split_dot token in
           if length tokenParts \<noteq> 3 then
             Return \<lparr>status = 400, body = [(''error'', JStr ''Invalid token format'')]\<rparr>
           else case parse_header l (hd tokenParts) of
             Inl message \<Rightarrow> Throw (Error ''SyntaxError'' message)
           | Inr header \<Rightarrow>
               (case get_prop header ''alg'' of
                  Inl err \<Rightarrow> Throw err
                | Inr alg \<Rightarrow>
                    if alg \<noteq> Some (JStr ALLOWED_ALGORITHM) then
                      Return \<lparr>status = 401,
                        body = (''error'', JStr ''Invalid algorithm'') #
                          (if DEBUG cfg
                           then [(''details'',
                                  JStr (''Expected '' @ ALLOWED_ALGORITHM @ '', got '' @ to_str l alg))]
                           else [])\<rparr>
                    else
                      (case jwt_verify l token secret of
                         Inl err \<Rightarrow> Throw err
                       | Inr decoded \<Rightarrow> Continue decoded))))"

text \<open>
  Lines 198 to 212: \<open>eventType = decoded.type\<close>, \<open>eventData = decoded.data || decoded\<close>
  and the envelope. Reading a property of \<open>null\<close> throws.
\<close>

definition build_event :: "lib \<Rightarrow> int \<Rightarrow> json \<Rightarrow> js_error + event" where
  "build_event l now decoded =
     (case get_prop decoded ''type'' of
        Inl err \<Rightarrow> Inl err
      | Inr eventType \<Rightarrow>
          (case get_prop decoded ''data'' of
             Inl err \<Rightarrow> Inl err
           | Inr d \<Rightarrow>
               (let eventData = (case d of
                                   None \<Rightarrow> decoded
                                 | Some v \<Rightarrow> if truthy v then v else decoded)
                in Inr \<lparr>ev_type = eventType, ev_data = eventData,
                        ev_timestamp = toISOString l now\<rparr>)))"

text \<open>Lines 236 to 253: the \<open>catch\<close> block.\<close>

definition catch_error :: "config \<Rightarrow> js_error \<Rightarrow> response" where
  "catch_error cfg err =
     (if error_name err = ''JsonWebTokenError'' then
        \<lparr>status = 401,
         body = (''error'', JStr ''Invalid signature'') #
           (if DEBUG cfg then [(''details'', JStr (error_message err))] else [])\<rparr>
      else if error_name err = ''TokenExpiredError'' then
        \<lparr>status = 401, body = [(''error'', JStr ''Token expired'')]\<rparr>
      else
        \<lparr>status = 500,
         body = (''error'', JStr ''Internal server error'') #
           (if DEBUG cfg then [(''details'', JStr (error_message err))] else [])\<rparr>)"

text \<open>
  Lines 214 to 234: both emissions, the update of the clients' counters and the answer.
  When the event type is a reserved event name the second emission throws, after the
  first one has been made; the \<open>catch\<close> block answers.
\<close>

definition deliver :: "lib \<Rightarrow> config \<Rightarrow> int \<Rightarrow> event \<Rightarrow> state \<Rightarrow> state \<times> outcome" where
  "deliver l cfg now ev st =
     (if reserved (ev_type ev) then
        (st,
         \<lparr>response =
            catch_error cfg
              (Error ''Error''
                 ([CHR 0x22] @ (case ev_type ev of Some (JStr s) \<Rightarrow> s | _ \<Rightarrow> [])
                    @ [CHR 0x22] @ '' is a reserved event name'')),
          broadcast = Some ev,
          global_to = io_emit st,
          scoped_to = []\<rparr>)
      else
        (st\<lparr>clientInfo :=
               map (\<lambda>kv. (fst kv, (snd kv)\<lparr>eventsReceived := eventsReceived (snd kv) + 1\<rparr>))
                 (clientInfo st)\<rparr>,
         \<lparr>response =
            \<lparr>status = 200,
             body = [(''success'', JBool True),
                     (''broadcasted'', JNum (of_int (connectedClients st))),
                     (''received'', JStr (toISOString l now))]\<rparr>,
          broadcast = Some ev,
          global_to = io_emit st,
          scoped_to = io_to_emit (ev_type ev) st\<rparr>))"

text \<open>The handler of \<open>app.post('/webhook', webhookLimiter, async (req, res) => ...)\<close>.\<close>

definition webhook :: "lib \<Rightarrow> config \<Rightarrow> int \<Rightarrow> req_body \<Rightarrow> state \<Rightarrow> state \<times> outcome" where
  "webhook l cfg now b st =
     (case check_token l cfg (read_token l b) of
        Return r \<Rightarrow> (st, answer_only r)
      | Throw err \<Rightarrow> (st, answer_only (catch_error cfg err))
      | Continue decoded \<Rightarrow>
          (case build_event l now decoded of
             Inl err \<Rightarrow> (st, answer_only (catch_error cfg err))
           | Inr ev \<Rightarrow> deliver l cfg now ev st))"

subsection \<open>The rate limiter\<close>

text \<open>
  Modelled from the spec: the window counter behind \<open>rateLimit({windowMs, max, ...})\<close>. It
  is the package express-rate-limit, which is not part of the sources; section 4.2 of the
  specification gives the algorithm: a fixed window per source key, reset when
  \<open>now - windowStart \<ge> windowDuration\<close>, admission while \<open>count < max\<close>. The answer is
  whether the request is admitted.
\<close>

definition tryAdmit :: "config \<Rightarrow> string \<Rightarrow> int \<Rightarrow> state \<Rightarrow> bool \<times> state" where
  "tryAdmit cfg sourceKey now st =
     (let fresh = \<lparr>windowStart = now, count = 0\<rparr>;
          w = (case windows st sourceKey of
                 None \<Rightarrow> fresh
               | Some w0 \<Rightarrow> if now - windowStart w0 \<ge> RATE_LIMIT_WINDOW_MS then fresh else w0)
      in if int (count w) < RATE_LIMIT_MAX cfg then
           (True, st\<lparr>windows := (windows st)(sourceKey \<mapsto> w\<lparr>count := count w + 1\<rparr>)\<rparr>)
         else
           (False, st\<lparr>windows := (windows st)(sourceKey \<mapsto> w)\<rparr>))"

text \<open>
  Modelled from the spec: the time left in the window of a source key, in milliseconds,
  \<open>windowDuration - (now - windowStart)\<close> (section 4.2).
\<close>

definition window_remaining :: "string \<Rightarrow> int \<Rightarrow> state \<Rightarrow> int" where
  "window_remaining sourceKey now st =
     (case windows st sourceKey of
        None \<Rightarrow> RATE_LIMIT_WINDOW_MS
      | Some w \<Rightarrow> RATE_LIMIT_WINDOW_MS - (now - windowStart w))"

text \<open>
  The \<open>handler\<close> option of \<open>webhookLimiter\<close> (lines 46 to 61 of server.js), called for a
  request over the limit. \<open>Math.ceil(RATE_LIMIT_WINDOW_MS / 1000)\<close> is the ceiling of the
  quotient.
\<close>

definition limit_handler :: "config \<Rightarrow> int \<Rightarrow> state \<Rightarrow> state \<times> response" where
  "limit_handler cfg now st =
     (let st1 = st\<lparr>rateLimitWarningCount := rateLimitWarningCount st + 1\<rparr>;
          st2 = (if now - lastRateLimitWarning st1 > RATE_LIMIT_WARNING_INTERVAL
                 then st1\<lparr>lastRateLimitWarning := now, rateLimitWarningCount := 0\<rparr>
                 else st1)
      in (st2,
          \<lparr>status = 429,
           body = [(''error'', JStr ''Too many requests''),
                   (''message'', JStr (''Rate limit exceeded. Maximum '' @ show_int (RATE_LIMIT_MAX cfg)
                                        @ '' requests per minute.'')),
                   (''retryAfter'', JNum (of_int \<lceil>real_of_int RATE_LIMIT_WINDOW_MS / 1000\<rceil>))]\<rparr>))"

text \<open>The route: the limiter first, then its handler or the webhook handler.\<close>

definition post_webhook ::
    "lib \<Rightarrow> config \<Rightarrow> string \<Rightarrow> int \<Rightarrow> req_body \<Rightarrow> state \<Rightarrow> state \<times> outcome" where
  "post_webhook l cfg sourceKey now b st =
     (case tryAdmit cfg sourceKey now st of
        (True, st1) \<Rightarrow> webhook l cfg now b st1
      | (False, st1) \<Rightarrow>
          (case limit_handler cfg now st1 of (st2, r) \<Rightarrow> (st2, answer_only r)))"

text \<open>The field \<open>k\<close> of an answer's body.\<close>

definition body_field :: "outcome \<Rightarrow> string \<Rightarrow> json option" where
  "body_field out k = map_of (body (response out)) k"

subsection \<open>Runs of the server\<close>

text \<open>
  The states the server can be in: it starts with no client, Socket.IO connects a socket
  under an id that no connected socket has, a connected socket sends subscribe requests
  and disconnects, and webhook requests arrive at any time.
\<close>

inductive reachable :: "state \<Rightarrow> bool" where
  start: "reachable init_state"
| connects: "reachable st \<Longrightarrow> clientId \<notin> fst ` set (sockets st) \<Longrightarrow>
     reachable (fst (connection l clientId clientIp now st))"
| subscribes: "reachable st \<Longrightarrow> clientId \<in> fst ` set (sockets st) \<Longrightarrow>
     reachable (fst (subscribe clientId eventTypes st))"
| disconnects: "reachable st \<Longrightarrow> clientId \<in> fst ` set (sockets st) \<Longrightarrow>
     reachable (disconnect clientId st)"
| posts: "reachable st \<Longrightarrow> reachable (fst (post_webhook l cfg sourceKey now b st))"

code_pred reachable .

text \<open>The registry is consistent: one entry of \<open>clientInfo\<close> per connected socket, in the same order, and the counter counts them.\<close>

definition registry_ok :: "state \<Rightarrow> bool" where
  "registry_ok st =
     (distinct (map fst (sockets st))
      \<and> map fst (clientInfo st) = map fst (sockets st)
      \<and> connectedClients st = int (length (sockets st)))"

subsection \<open>Library instances for the examples\<close>

text \<open>
  A library under which every header segment decodes to \<open>{"alg": "HS256"}\<close> and every
  token verifies to the payload \<open>p\<close>: what the real calls answer for a token that carries
  \<open>p\<close> and is signed with the configured secret.
\<close>

definition lib_verified :: "json \<Rightarrow> lib" where
  "lib_verified p =
     \<lparr>parse_header = (\<lambda>s. Inr (JObj [(''alg'', JStr ''HS256'')])),
      jwt_verify = (\<lambda>token secret. Inr p),
      stringify = (\<lambda>v. ''{}''),
      to_str = (\<lambda>v. ''undefined''),
      toISOString = (\<lambda>t. ''2025-10-05T00:00:00.000Z'')\<rparr>"

text \<open>
  A library under which no header segment decodes to JSON: what the real calls answer for
  the token \<open>abc.def.ghi\<close>, whose first segment is the base64 of two bytes that are not
  JSON text.
\<close>

definition lib_bad_header :: lib where
  "lib_bad_header =
     \<lparr>parse_header = (\<lambda>s. Inl ''Unexpected token i in JSON at position 0''),
      jwt_verify = (\<lambda>token secret. Inl (Error ''JsonWebTokenError'' ''invalid token'')),
      stringify = (\<lambda>v. ''{}''),
      to_str = (\<lambda>v. ''undefined''),
      toISOString = (\<lambda>t. ''2025-10-05T00:00:00.000Z'')\<rparr>"

definition cfg0 :: config where
  "cfg0 = \<lparr>WEBHOOK_SECRET = Some ''dp_call_logs'', DEBUG = False, rate_limit_max_env = None\<rparr>"

text \<open>The same configuration with \<open>RATE_LIMIT_MAX=1\<close>.\<close>

definition cfg1 :: config where
  "cfg1 = \<lparr>WEBHOOK_SECRET = Some ''dp_call_logs'', DEBUG = False, rate_limit_max_env = Some 1\<rparr>"

text \<open>Payloads: the shape the test scripts send, one without \<open>type\<close>, one with its fields at top level, one whose \<open>data\<close> is \<open>null\<close>.\<close>

definition payload_call :: json where
  "payload_call =
     JObj [(''type'', JStr ''call.created''), (''data'', JObj [(''call_id'', JStr ''test-1'')])]"

definition payload_no_type :: json where
  "payload_no_type = JObj [(''data'', JObj [(''call_id'', JStr ''test-1'')])]"




text \<open>The server after one consumer has connected, and after that consumer has subscribed twice.\<close>

definition one_client :: state where
  "one_client = fst (connection (lib_verified JNull) ''s1'' ''10.0.0.1'' 0 init_state)"

definition subscribed_twice :: state where
  "subscribed_twice =
     fst (subscribe ''s1'' (JArr [JStr ''sms.inbound''])
       (fst (subscribe ''s1'' (JArr [JStr ''call.created'']) one_client)))"

text \<open>
  The server with \<open>RATE_LIMIT_MAX=1\<close> after a first webhook request from the source
  \<open>ip\<close> at time 0: the window of that source is full.
\<close>

definition after_first_post :: state where
  "after_first_post =
     fst (post_webhook (lib_verified payload_call) cfg1 ''ip'' 0 (Text ''abc.def.ghi'') init_state)"

text \<open>
  The states in which the consumer \<open>S\<close> is connected and has sent no subscribe request
  since it connected, whatever the other consumers and the producer have done.
\<close>

inductive never_subscribed :: "string \<Rightarrow> state \<Rightarrow> bool" for S :: string where
  joined: "reachable st \<Longrightarrow> S \<notin> fst ` set (sockets st) \<Longrightarrow>
     never_subscribed S (fst (connection l S clientIp now st))"
| other_connects: "never_subscribed S st \<Longrightarrow> clientId \<notin> fst ` set (sockets st) \<Longrightarrow>
     never_subscribed S (fst (connection l clientId clientIp now st))"
| other_subscribes: "never_subscribed S st \<Longrightarrow> clientId \<noteq> S \<Longrightarrow>
     clientId \<in> fst ` set (sockets st) \<Longrightarrow>
     never_subscribed S (fst (subscribe clientId eventTypes st))"
| other_disconnects: "never_subscribed S st \<Longrightarrow> clientId \<noteq> S \<Longrightarrow>
     clientId \<in> fst ` set (sockets st) \<Longrightarrow>
     never_subscribed S (disconnect clientId st)"
| posted: "never_subscribed S st \<Longrightarrow>
     never_subscribed S (fst (post_webhook l cfg sourceKey now b st))"

code_pred never_subscribed .





section \<open>Properties of the retry client\<close>

lemma base_delay_small:
  "base_delay 0 = 1000" "base_delay 1 = 2000" "base_delay 2 = 4000" "base_delay 3 = 8000"
  "base_delay 4 = 16000" "base_delay 5 = 32000" "base_delay 6 = 60000" "base_delay 7 = 60000"
  "base_delay (Suc 0) = 2000"
  by (simp_all add: base_delay_def INITIAL_RETRY_DELAY_def MAX_RETRY_DELAY_def)

lemma base_delay_clamped:
  assumes "6 \<le> n"
  shows "base_delay n = 60000"
proof -
  from assms have "(2::real) ^ 6 \<le> 2 ^ n"
    by (intro power_increasing) auto
  then have "(60000::real) \<le> 1000 * 2 ^ n"
    by simp
  then show ?thesis
    by (simp add: base_delay_def INITIAL_RETRY_DELAY_def MAX_RETRY_DELAY_def)
qed








text \<open>
  C3 (as the spec states it, refuted): with \<open>initialDelay = 1s\<close> and \<open>maxDelay = 60s\<close> the
  base delay of attempt 6 is said to be 32 s, still under the maximum. In the code
  attempt 6 computes \<open>1000 * 2^6 = 64000\<close> ms, which the minimum clamps to 60000 ms; the
  delay then lies in \<open>[60 s, 61 s)\<close>.
\<close>

theorem C3_attempt_6_counterexample:
  "base_delay 6 \<noteq> 32000 \<and> base_delay 6 = MAX_RETRY_DELAY
   \<and> calculateRetryDelay (\<lambda>v. None) 0 6 None = Some 60000"
  by (simp add: calculateRetryDelay_def base_delay_def INITIAL_RETRY_DELAY_def MAX_RETRY_DELAY_def)

text \<open>
  C3 (amended): for every attempt index \<open>n\<close> with no server-supplied \<open>retryAfter\<close>
  (\<open>undefined\<close> or the default \<open>null\<close>), the computed delay is
  \<open>min(initialDelay * 2^n, maxDelay)\<close> plus the additive jitter \<open>Math.random() * 1000\<close>,
  which lies in \<open>[0, 1 s)\<close>. With \<open>initialDelay = 1 s\<close> and \<open>maxDelay = 60 s\<close> the base
  delays of attempts 0..4 are 1, 2, 4, 8 and 16 s, attempt 5 computes 32 s (still under the
  maximum), and every attempt from 6 on is clamped to 60 s.
\<close>

theorem C3_backoff_delay:
  assumes "0 \<le> r" and "r < 1"
  shows "calculateRetryDelay coerce r n None
           = Some (min (INITIAL_RETRY_DELAY * 2 ^ n) MAX_RETRY_DELAY + r * 1000)
    \<and> calculateRetryDelay coerce r n (Some JNull) = calculateRetryDelay coerce r n None
    \<and> 0 \<le> r * 1000 \<and> r * 1000 < 1000
    \<and> INITIAL_RETRY_DELAY = 1000 \<and> MAX_RETRY_DELAY = 60000
    \<and> map base_delay [0, 1, 2, 3, 4] = [1000, 2000, 4000, 8000, 16000]
    \<and> base_delay 5 = 32000
    \<and> (if 6 \<le> n then base_delay n = 60000 else base_delay n < 60000)"
proof -
  have "calculateRetryDelay coerce r n None
          = Some (min (INITIAL_RETRY_DELAY * 2 ^ n) MAX_RETRY_DELAY + r * 1000)"
    by (simp add: calculateRetryDelay_def base_delay_def)
  moreover have "calculateRetryDelay coerce r n (Some JNull) = calculateRetryDelay coerce r n None"
    by (simp add: calculateRetryDelay_def)
  moreover have "0 \<le> r * 1000" "r * 1000 < 1000"
    using assms by simp_all
  moreover have "INITIAL_RETRY_DELAY = 1000" "MAX_RETRY_DELAY = 60000"
    by (simp_all add: INITIAL_RETRY_DELAY_def MAX_RETRY_DELAY_def)
  moreover have "map base_delay [0, 1, 2, 3, 4] = [1000, 2000, 4000, 8000, 16000]"
    by (simp add: base_delay_small)
  moreover have "base_delay 5 = 32000"
    by (rule base_delay_small)
  moreover have "if 6 \<le> n then base_delay n = 60000 else base_delay n < 60000"
  proof (cases "6 \<le> n")
    case True
    then show ?thesis by (simp add: base_delay_clamped)
  next
    case False
    then have "n \<in> {0, 1, 2, 3, 4, 5}" by auto
    then show ?thesis using False by (auto simp: base_delay_small)
  qed
  ultimately show ?thesis by blast
qed

theorem C3_backoff_delay_witness:
  "(0::real) \<le> 1 / 2 \<and> (1 / 2 :: real) < 1
   \<and> calculateRetryDelay (\<lambda>v. None) (1 / 2) 3 None = Some 8500
   \<and> base_delay 3 < 60000"
proof -
  have h1: "(0::real) \<le> 1 / 2" and h2: "(1 / 2 :: real) < 1"
    by simp_all
  from C3_backoff_delay [OF h1 h2, of "\<lambda>v. None" 3] show ?thesis
    by (simp add: INITIAL_RETRY_DELAY_def MAX_RETRY_DELAY_def)
qed











section \<open>Properties of the relay server\<close>

subsection \<open>The answers of the webhook route\<close>

lemma ceil_window: "\<lceil>real_of_int RATE_LIMIT_WINDOW_MS / 1000\<rceil> = 60"
  by (simp add: RATE_LIMIT_WINDOW_MS_def)

lemma check_token_status:
  "check_token l cfg token = Return r \<Longrightarrow> status r \<in> {400, 401, 500}"
  by (auto simp: check_token_def Let_def split: if_splits option.splits sum.splits)

lemma catch_error_status: "status (catch_error cfg err) \<in> {401, 500}"
  by (simp add: catch_error_def)

lemma webhook_cases:
  "(\<exists>decoded ev. check_token l cfg (read_token l b) = Continue decoded
       \<and> build_event l now decoded = Inr ev
       \<and> webhook l cfg now b st = deliver l cfg now ev st)
   \<or> (\<exists>r. webhook l cfg now b st = (st, answer_only r) \<and> status r \<in> {400, 401, 500})"
proof (cases "check_token l cfg (read_token l b)")
  case (Return r)
  then show ?thesis using check_token_status [OF Return] by (auto simp: webhook_def)
next
  case (Throw err)
  then show ?thesis using catch_error_status [of cfg err] by (auto simp: webhook_def)
next
  case (Continue decoded)
  then show ?thesis using catch_error_status
    by (cases "build_event l now decoded") (auto simp: webhook_def)
qed

lemma catch_error_not_ok:
  "status (catch_error cfg err) \<noteq> 200" "status (catch_error cfg err) \<noteq> 429"
  by (simp_all add: catch_error_def)

lemma deliver_status:
  "status (response (snd (deliver l cfg now ev st))) = 200 \<longleftrightarrow> \<not> reserved (ev_type ev)"
  by (simp add: deliver_def catch_error_not_ok)

lemma deliver_not_429: "status (response (snd (deliver l cfg now ev st))) \<noteq> 429"
  by (simp add: deliver_def catch_error_not_ok)

lemma webhook_accepted:
  assumes "status (response (snd (webhook l cfg now b st))) = 200"
  shows "\<exists>decoded ev. check_token l cfg (read_token l b) = Continue decoded
       \<and> build_event l now decoded = Inr ev \<and> \<not> reserved (ev_type ev)
       \<and> webhook l cfg now b st = deliver l cfg now ev st"
  using webhook_cases [of l cfg b now st] assms deliver_status
  by (auto simp: answer_only_def)

lemma tryAdmit_fields:
  "sockets (snd (tryAdmit cfg k now st)) = sockets st"
  "clientInfo (snd (tryAdmit cfg k now st)) = clientInfo st"
  "connectedClients (snd (tryAdmit cfg k now st)) = connectedClients st"
  by (simp_all add: tryAdmit_def Let_def)

lemma limit_handler_fields:
  "sockets (fst (limit_handler cfg now st)) = sockets st"
  "clientInfo (fst (limit_handler cfg now st)) = clientInfo st"
  "connectedClients (fst (limit_handler cfg now st)) = connectedClients st"
  by (simp_all add: limit_handler_def Let_def)

lemma limit_handler_response:
  "status (snd (limit_handler cfg now st)) = 429"
  "map_of (body (snd (limit_handler cfg now st))) ''retryAfter'' = Some (JNum 60)"
  by (simp_all add: limit_handler_def Let_def ceil_window)

lemma post_webhook_admitted:
  "fst (tryAdmit cfg k now st) \<Longrightarrow>
     post_webhook l cfg k now b st = webhook l cfg now b (snd (tryAdmit cfg k now st))"
  by (cases "tryAdmit cfg k now st") (simp add: post_webhook_def)

lemma post_webhook_rejected:
  "\<not> fst (tryAdmit cfg k now st) \<Longrightarrow>
     post_webhook l cfg k now b st =
       (fst (limit_handler cfg now (snd (tryAdmit cfg k now st))),
        answer_only (snd (limit_handler cfg now (snd (tryAdmit cfg k now st)))))"
  by (cases "tryAdmit cfg k now st") (simp add: post_webhook_def split: prod.splits)

lemma webhook_not_429: "status (response (snd (webhook l cfg now b st))) \<noteq> 429"
  using webhook_cases [of l cfg b now st] deliver_not_429 by (auto simp: answer_only_def)

lemma post_webhook_429:
  "status (response (snd (post_webhook l cfg k now b st))) = 429 \<longleftrightarrow> \<not> fst (tryAdmit cfg k now st)"
  by (cases "fst (tryAdmit cfg k now st)")
     (simp_all add: post_webhook_admitted post_webhook_rejected webhook_not_429 answer_only_def limit_handler_response)

subsection \<open>The registry is consistent in every reachable state\<close>

lemma map_set_fresh: "k \<notin> fst ` set m \<Longrightarrow> map_set k v m = m @ [(k, v)]"
  by (induction m) auto

lemma filter_absent: "k \<notin> set xs \<Longrightarrow> filter (\<lambda>x. x \<noteq> k) xs = xs"
  by (induction xs) auto

lemma length_filter_remove1:
  "distinct xs \<Longrightarrow> k \<in> set xs \<Longrightarrow> int (length (filter (\<lambda>x. x \<noteq> k) xs)) = int (length xs) - 1"
  by (induction xs) (auto simp: filter_absent)

lemma map_fst_filter_key:
  "map fst (filter (\<lambda>s. fst s \<noteq> k) xs) = filter (\<lambda>x. x \<noteq> k) (map fst xs)"
  by (induction xs) auto

lemma registry_ok_init: "registry_ok init_state"
  by (simp add: registry_ok_def init_state_def)

lemma registry_ok_connection:
  assumes "registry_ok st" and "clientId \<notin> fst ` set (sockets st)"
  shows "registry_ok (fst (connection l clientId clientIp now st))"
proof -
  from assms have "clientId \<notin> fst ` set (clientInfo st)"
    by (metis registry_ok_def set_map)
  then show ?thesis using assms
    by (simp add: registry_ok_def connection_def map_set_fresh)
qed

lemma subscribe_ids: "map fst (sockets (fst (subscribe clientId v st))) = map fst (sockets st)"
  by (cases v) (simp_all add: subscribe_def comp_def if_distrib cong: if_cong)

lemma subscribe_fields:
  "clientInfo (fst (subscribe clientId v st)) = clientInfo st"
  "connectedClients (fst (subscribe clientId v st)) = connectedClients st"
  by (cases v; simp add: subscribe_def)+

lemma registry_ok_subscribe:
  "registry_ok st \<Longrightarrow> registry_ok (fst (subscribe clientId v st))"
  using subscribe_ids [of clientId v st] length_map [of fst "sockets (fst (subscribe clientId v st))"]
  by (simp add: registry_ok_def subscribe_fields del: length_map) (metis length_map)

lemma registry_ok_disconnect:
  assumes "registry_ok st" and "clientId \<in> fst ` set (sockets st)"
  shows "registry_ok (disconnect clientId st)"
proof -
  have d: "distinct (map fst (sockets st))" and k: "clientId \<in> set (map fst (sockets st))"
    using assms by (simp_all add: registry_ok_def)
  have "int (length (filter (\<lambda>s. fst s \<noteq> clientId) (sockets st))) = int (length (sockets st)) - 1"
    using length_filter_remove1 [OF d k] map_fst_filter_key [of clientId "sockets st"]
    by (metis length_map)
  then show ?thesis using assms(1)
    by (simp add: registry_ok_def disconnect_def map_delete_def map_fst_filter_key)
qed

lemma deliver_fields:
  "sockets (fst (deliver l cfg now ev st)) = sockets st"
  "map fst (clientInfo (fst (deliver l cfg now ev st))) = map fst (clientInfo st)"
  "connectedClients (fst (deliver l cfg now ev st)) = connectedClients st"
  "windows (fst (deliver l cfg now ev st)) = windows st"
  "broadcast (snd (deliver l cfg now ev st)) = Some ev"
  "global_to (snd (deliver l cfg now ev st)) = map fst (sockets st)"
  by (simp_all add: deliver_def comp_def io_emit_def)

lemma webhook_fields:
  "sockets (fst (webhook l cfg now b st)) = sockets st"
  "map fst (clientInfo (fst (webhook l cfg now b st))) = map fst (clientInfo st)"
  "connectedClients (fst (webhook l cfg now b st)) = connectedClients st"
  using webhook_cases [of l cfg b now st] by (auto simp: deliver_fields)

lemma post_webhook_fields:
  "sockets (fst (post_webhook l cfg k now b st)) = sockets st"
  "map fst (clientInfo (fst (post_webhook l cfg k now b st))) = map fst (clientInfo st)"
  "connectedClients (fst (post_webhook l cfg k now b st)) = connectedClients st"
  by (cases "fst (tryAdmit cfg k now st)";
      simp add: post_webhook_admitted post_webhook_rejected webhook_fields tryAdmit_fields
        limit_handler_fields)+

lemma registry_ok_post:
  "registry_ok st \<Longrightarrow> registry_ok (fst (post_webhook l cfg k now b st))"
  by (simp add: registry_ok_def post_webhook_fields)

lemma reachable_registry_ok: "reachable st \<Longrightarrow> registry_ok st"
  by (induction rule: reachable.induct)
     (simp_all add: registry_ok_init registry_ok_connection registry_ok_subscribe
        registry_ok_disconnect registry_ok_post)

lemma post_webhook_accepted:
  assumes "status (response (snd (post_webhook l cfg k now b st))) = 200"
  shows "\<exists>decoded ev. check_token l cfg (read_token l b) = Continue decoded
       \<and> build_event l now decoded = Inr ev \<and> \<not> reserved (ev_type ev)
       \<and> post_webhook l cfg k now b st = deliver l cfg now ev (snd (tryAdmit cfg k now st))"
proof (cases "fst (tryAdmit cfg k now st)")
  case True
  then show ?thesis using assms webhook_accepted [of l cfg now b "snd (tryAdmit cfg k now st)"]
    by (simp add: post_webhook_admitted)
next
  case False
  then show ?thesis using assms
    by (simp add: post_webhook_rejected answer_only_def limit_handler_response)
qed

lemma post_webhook_broadcast:
  assumes "broadcast (snd (post_webhook l cfg k now b st)) = Some ev"
  shows "post_webhook l cfg k now b st = deliver l cfg now ev (snd (tryAdmit cfg k now st))"
proof (cases "fst (tryAdmit cfg k now st)")
  case True
  then show ?thesis using assms webhook_cases [of l cfg b now "snd (tryAdmit cfg k now st)"]
    by (auto simp: post_webhook_admitted answer_only_def deliver_fields)
next
  case False
  then show ?thesis using assms
    by (simp add: post_webhook_rejected answer_only_def)
qed

subsection \<open>Examples evaluated\<close>

lemma read_token_example: "read_token l (Text ''abc.def.ghi'') = ''abc.def.ghi''"
  by (simp add: read_token_def trim_def strip_quotes_def is_space_def is_quote_def)

lemma check_token_verified: "check_token (lib_verified p) cfg0 ''abc.def.ghi'' = Continue p"
  by (simp add: check_token_def cfg0_def lib_verified_def ALLOWED_ALGORITHM_def)

lemma one_client_sockets: "sockets one_client = [(''s1'', {JStr ''s1''})]"
  by (simp add: one_client_def connection_def init_state_def)

lemma one_client_fields:
  "connectedClients one_client = 1"
  "clientInfo one_client =
     [(''s1'', \<lparr>client_id = ''s1'', ip = ''10.0.0.1'', connectedAt = 0, eventsReceived = 0\<rparr>)]"
  "windows one_client = (\<lambda>k. None)"
  by (simp_all add: one_client_def connection_def init_state_def)

lemma reachable_one_client: "reachable one_client"
  unfolding one_client_def
  by (rule reachable.connects [OF reachable.start]) (simp add: init_state_def)

lemma subscribed_twice_sockets:
  "sockets subscribed_twice = [(''s1'', {JStr ''s1'', JStr ''call.created'', JStr ''sms.inbound''})]"
  by (auto simp: subscribed_twice_def subscribe_def one_client_sockets socket_join_def)

lemma subscribed_twice_fields:
  "connectedClients subscribed_twice = 1"
  "windows subscribed_twice = (\<lambda>k. None)"
  by (simp_all add: subscribed_twice_def subscribe_def one_client_fields)

lemma tryAdmit_first:
  "windows st = (\<lambda>k. None) \<Longrightarrow> fst (tryAdmit cfg0 k now st)"
  by (simp add: tryAdmit_def RATE_LIMIT_MAX_def cfg0_def)

lemma post_webhook_example:
  assumes "windows st = (\<lambda>k. None)" and "build_event (lib_verified p) now p = Inr ev"
    and "\<not> reserved (ev_type ev)"
  shows "snd (post_webhook (lib_verified p) cfg0 k now (Text ''abc.def.ghi'') st) =
     \<lparr>response =
         \<lparr>status = 200,
          body = [(''success'', JBool True),
                  (''broadcasted'', JNum (of_int (connectedClients st))),
                  (''received'', JStr ''2025-10-05T00:00:00.000Z'')]\<rparr>,
       broadcast = Some ev,
       global_to = map fst (sockets st),
       scoped_to = io_to_emit (ev_type ev) st\<rparr>"
proof -
  have iso: "toISOString (lib_verified p) now = ''2025-10-05T00:00:00.000Z''"
    by (simp add: lib_verified_def)
  show ?thesis using assms
    by (simp add: post_webhook_admitted tryAdmit_first webhook_def read_token_example
        check_token_verified deliver_def io_emit_def tryAdmit_fields iso)
       (simp add: io_to_emit_def tryAdmit_fields)
qed

lemma not_reserved_call:
  "\<not> reserved (ev_type \<lparr>ev_type = Some (JStr ''call.created''), ev_data = d, ev_timestamp = t\<rparr>)"
  by (simp add: reserved_def RESERVED_EVENTS_def)

lemma not_reserved_none:
  "\<not> reserved (ev_type \<lparr>ev_type = None, ev_data = d, ev_timestamp = t\<rparr>)"
  by (simp add: reserved_def)

lemma build_event_call:
  "build_event l now payload_call =
     Inr \<lparr>ev_type = Some (JStr ''call.created''), ev_data = JObj [(''call_id'', JStr ''test-1'')],
          ev_timestamp = toISOString l now\<rparr>"
  by (simp add: build_event_def payload_call_def)

subsection \<open>Type-scoped delivery\<close>

lemma io_to_emit_member:
  assumes "distinct (map fst (sockets st))" and "(S, rooms) \<in> set (sockets st)"
  shows "S \<in> set (io_to_emit room st) \<longleftrightarrow> rooms \<inter> target_rooms room \<noteq> {}"
proof
  assume "S \<in> set (io_to_emit room st)"
  then have "S \<in> fst ` set (filter (\<lambda>s. snd s \<inter> target_rooms room \<noteq> {}) (sockets st))"
    by (simp add: io_to_emit_def)
  then obtain p where p: "p \<in> set (filter (\<lambda>s. snd s \<inter> target_rooms room \<noteq> {}) (sockets st))"
    and S: "S = fst p"
    by (rule imageE)
  define rooms' where "rooms' = snd p"
  have m: "(S, rooms') \<in> set (sockets st)" and r: "rooms' \<inter> target_rooms room \<noteq> {}"
    using p S by (simp_all add: rooms'_def)
  from assms m have "rooms' = rooms"
    by (meson eq_key_imp_eq_value)
  with r show "rooms \<inter> target_rooms room \<noteq> {}" by simp
next
  assume "rooms \<inter> target_rooms room \<noteq> {}"
  with assms(2) have "(S, rooms) \<in> set (filter (\<lambda>s. snd s \<inter> target_rooms room \<noteq> {}) (sockets st))"
    by simp
  then have "fst (S, rooms) \<in> fst ` set (filter (\<lambda>s. snd s \<inter> target_rooms room \<noteq> {}) (sockets st))"
    by (rule imageI)
  then show "S \<in> set (io_to_emit room st)"
    by (simp add: io_to_emit_def)
qed

lemma never_subscribed_rooms:
  "never_subscribed S st \<Longrightarrow> reachable st \<and> (S, {JStr S}) \<in> set (sockets st)"
proof (induction rule: never_subscribed.induct)
  case (joined st l clientIp now)
  then show ?case by (simp add: reachable.connects) (simp add: connection_def)
next
  case (other_connects st clientId l clientIp now)
  then show ?case by (simp add: reachable.connects) (simp add: connection_def)
next
  case (other_subscribes st clientId eventTypes)
  then show ?case
    by (simp add: reachable.subscribes) (cases eventTypes; force simp: subscribe_def)
next
  case (other_disconnects st clientId)
  then show ?case by (simp add: reachable.disconnects) (simp add: disconnect_def)
next
  case (posted st l cfg sourceKey now b)
  then show ?case by (simp add: reachable.posts post_webhook_fields)
qed

lemma scoped_to_member:
  assumes "reachable st" and "(S, rooms) \<in> set (sockets st)"
    and "broadcast (snd (post_webhook l cfg k now b st)) = Some ev"
    and "status (response (snd (post_webhook l cfg k now b st))) = 200"
  shows "S \<in> set (scoped_to (snd (post_webhook l cfg k now b st)))
           \<longleftrightarrow> rooms \<inter> target_rooms (ev_type ev) \<noteq> {}"
    and "global_to (snd (post_webhook l cfg k now b st)) = map fst (sockets st)"
proof -
  have eq: "post_webhook l cfg k now b st = deliver l cfg now ev (snd (tryAdmit cfg k now st))"
    using assms(3) by (rule post_webhook_broadcast)
  have d: "distinct (map fst (sockets st))"
    using reachable_registry_ok [OF assms(1)] by (simp add: registry_ok_def)
  have "\<not> reserved (ev_type ev)"
    using assms(4) by (simp add: eq deliver_status)
  then have sc: "scoped_to (snd (post_webhook l cfg k now b st)) = io_to_emit (ev_type ev) st"
    by (simp add: eq deliver_def io_to_emit_def tryAdmit_fields)
  show "S \<in> set (scoped_to (snd (post_webhook l cfg k now b st)))
           \<longleftrightarrow> rooms \<inter> target_rooms (ev_type ev) \<noteq> {}"
    using io_to_emit_member [OF d assms(2), of "ev_type ev"] by (simp add: sc)
  show "global_to (snd (post_webhook l cfg k now b st)) = map fst (sockets st)"
    by (simp add: eq deliver_fields tryAdmit_fields)
qed

text \<open>
  C2 (amended): for every accepted submission (answered with 200) that broadcasts an event
  of type \<open>T\<close> (a string) and every connected consumer \<open>S\<close>, \<open>S\<close> receives the
  type-scoped message if and only if \<open>S\<close> has joined the room named \<open>T\<close>: \<open>T\<close> was
  listed in one of its subscribe requests, or is its own connection id, the room every
  socket is in. The global message reaches \<open>S\<close> in either case. In particular a consumer
  that has never sent a subscribe request receives the type-scoped message for no event
  type other than its own connection id.
\<close>

theorem C2_scoped_delivery_by_room:
  assumes "reachable st" and "(S, rooms) \<in> set (sockets st)"
    and "status (response (snd (post_webhook l cfg k now b st))) = 200"
    and "broadcast (snd (post_webhook l cfg k now b st)) = Some ev"
    and "ev_type ev = Some (JStr T)"
  shows "(S \<in> set (scoped_to (snd (post_webhook l cfg k now b st))) \<longleftrightarrow> JStr T \<in> rooms)
     \<and> S \<in> set (global_to (snd (post_webhook l cfg k now b st)))
     \<and> (never_subscribed S st \<longrightarrow>
          (S \<in> set (scoped_to (snd (post_webhook l cfg k now b st))) \<longleftrightarrow> T = S))"
proof -
  have a: "S \<in> set (scoped_to (snd (post_webhook l cfg k now b st))) \<longleftrightarrow> JStr T \<in> rooms"
    using scoped_to_member(1) [OF assms(1,2,4,3)] by (simp add: assms(5))
  have b: "S \<in> set (global_to (snd (post_webhook l cfg k now b st)))"
    using assms(2) scoped_to_member(2) [OF assms(1,2,4,3)] by force
  have c: "never_subscribed S st \<longrightarrow>
          (S \<in> set (scoped_to (snd (post_webhook l cfg k now b st))) \<longleftrightarrow> T = S)"
  proof
    assume "never_subscribed S st"
    then have "(S, {JStr S}) \<in> set (sockets st)"
      using never_subscribed_rooms by blast
    from scoped_to_member(1) [OF assms(1) this assms(4,3)]
    show "S \<in> set (scoped_to (snd (post_webhook l cfg k now b st))) \<longleftrightarrow> T = S"
      by (auto simp: assms(5))
  qed
  from a b c show ?thesis by blast
qed

lemma never_subscribed_one_client: "never_subscribed ''s1'' one_client"
  unfolding one_client_def
  by (rule never_subscribed.joined [OF reachable.start]) (simp add: init_state_def)

text \<open>
  C2 (as the spec states it, refuted): a subscriber that has never sent a subscribe
  request is said to receive the type-scoped message for every event type. Here the
  consumer \<open>s1\<close> has connected and never subscribed; a \<open>call.created\<close> event is
  accepted and reaches it on the global channel, and the type-scoped emission reaches no
  one.
\<close>

theorem C2_empty_subscription_counterexample:
  "never_subscribed ''s1'' one_client
   \<and> broadcast (snd (post_webhook (lib_verified payload_call) cfg0 ''ip'' 1000 (Text ''abc.def.ghi'') one_client))
       = Some \<lparr>ev_type = Some (JStr ''call.created''), ev_data = JObj [(''call_id'', JStr ''test-1'')],
               ev_timestamp = ''2025-10-05T00:00:00.000Z''\<rparr>
   \<and> global_to (snd (post_webhook (lib_verified payload_call) cfg0 ''ip'' 1000 (Text ''abc.def.ghi'') one_client))
       = [''s1'']
   \<and> ''s1'' \<notin> set (scoped_to (snd (post_webhook (lib_verified payload_call) cfg0 ''ip'' 1000
          (Text ''abc.def.ghi'') one_client)))"
proof -
  have ev: "build_event (lib_verified payload_call) 1000 payload_call =
     Inr \<lparr>ev_type = Some (JStr ''call.created''), ev_data = JObj [(''call_id'', JStr ''test-1'')],
          ev_timestamp = ''2025-10-05T00:00:00.000Z''\<rparr>"
    by (simp add: build_event_call) (simp add: lib_verified_def)
  show ?thesis
    by (simp add: never_subscribed_one_client
        post_webhook_example [OF one_client_fields(3) ev not_reserved_call] one_client_sockets io_to_emit_def)
qed

theorem C2_scoped_delivery_by_room_witness:
  "reachable one_client \<and> (''s1'', {JStr ''s1''}) \<in> set (sockets one_client)
   \<and> never_subscribed ''s1'' one_client
   \<and> status (response (snd (post_webhook (lib_verified payload_call) cfg0 ''ip'' 1000
          (Text ''abc.def.ghi'') one_client))) = 200
   \<and> ev_type \<lparr>ev_type = Some (JStr ''call.created''), ev_data = JObj [(''call_id'', JStr ''test-1'')],
               ev_timestamp = ''2025-10-05T00:00:00.000Z''\<rparr> = Some (JStr ''call.created'')
   \<and> (''s1'' \<in> set (scoped_to (snd (post_webhook (lib_verified payload_call) cfg0 ''ip'' 1000
          (Text ''abc.def.ghi'') one_client))) \<longleftrightarrow> JStr ''call.created'' \<in> {JStr ''s1''})
   \<and> ''s1'' \<in> set (global_to (snd (post_webhook (lib_verified payload_call) cfg0 ''ip'' 1000
          (Text ''abc.def.ghi'') one_client)))"
proof -
  let ?ev = "\<lparr>ev_type = Some (JStr ''call.created''), ev_data = JObj [(''call_id'', JStr ''test-1'')],
               ev_timestamp = ''2025-10-05T00:00:00.000Z''\<rparr>"
  have ev: "build_event (lib_verified payload_call) 1000 payload_call = Inr ?ev"
    by (simp add: build_event_call) (simp add: lib_verified_def)
  have h1: "reachable one_client"
    by (rule reachable_one_client)
  have h2: "(''s1'', {JStr ''s1''}) \<in> set (sockets one_client)"
    by (simp add: one_client_sockets)
  have h3: "broadcast (snd (post_webhook (lib_verified payload_call) cfg0 ''ip'' 1000
          (Text ''abc.def.ghi'') one_client)) = Some ?ev"
    by (simp add: post_webhook_example [OF one_client_fields(3) ev not_reserved_call])
  have h4: "ev_type ?ev = Some (JStr ''call.created'')"
    by simp
  have h5: "status (response (snd (post_webhook (lib_verified payload_call) cfg0 ''ip'' 1000
          (Text ''abc.def.ghi'') one_client))) = 200"
    by (simp add: post_webhook_example [OF one_client_fields(3) ev not_reserved_call])
  from C2_scoped_delivery_by_room [OF h1 h2 h5 h3 h4] h1 h2 h5 never_subscribed_one_client
  show ?thesis by simp
qed

subsection \<open>Subscribing\<close>

lemma subscribe_rooms:
  assumes "distinct (map fst (sockets st))" and "(S, rooms) \<in> set (sockets st)"
  shows "(S, rooms \<union> JStr ` set ts) \<in> set (sockets (fst (subscribe S (JArr (map JStr ts)) st)))"
proof -
  have "filter primitive (map JStr ts) = map JStr ts"
    by (induction ts) auto
  then have j: "socket_join (map JStr ts) rooms = rooms \<union> JStr ` set ts"
    by (simp add: socket_join_def)
  have "(\<lambda>s. if fst s = S then (fst s, socket_join (map JStr ts) (snd s)) else s) (S, rooms)
          \<in> (\<lambda>s. if fst s = S then (fst s, socket_join (map JStr ts) (snd s)) else s) ` set (sockets st)"
    using assms(2) by (rule imageI)
  then show ?thesis
    by (simp add: subscribe_def j)
qed

text \<open>
  C5 (amended): for every connected consumer and every subscribe request carrying a list
  of event-type strings, the request adds the listed types to the rooms the consumer has
  joined and removes none (it merges, it does not replace). After subscribing to \<open>ts1\<close>
  and then to \<open>ts2\<close> the consumer is in every room it was in before and in the rooms of
  both lists, and it receives the type-scoped message of every accepted event (answered
  with 200) whose type is in either list.
\<close>

theorem C5_subscribe_merges:
  assumes "reachable st" and "(S, rooms) \<in> set (sockets st)"
  shows "(S, rooms \<union> JStr ` set ts1) \<in> set (sockets (fst (subscribe S (JArr (map JStr ts1)) st)))
     \<and> (S, rooms \<union> JStr ` set ts1 \<union> JStr ` set ts2)
          \<in> set (sockets (fst (subscribe S (JArr (map JStr ts2))
                     (fst (subscribe S (JArr (map JStr ts1)) st)))))
     \<and> (status (response (snd (post_webhook l cfg k now b
            (fst (subscribe S (JArr (map JStr ts2)) (fst (subscribe S (JArr (map JStr ts1)) st)))))))
           = 200
         \<and> broadcast (snd (post_webhook l cfg k now b
            (fst (subscribe S (JArr (map JStr ts2)) (fst (subscribe S (JArr (map JStr ts1)) st))))))
           = Some ev
         \<and> ev_type ev = Some (JStr T) \<and> (T \<in> set ts1 \<or> T \<in> set ts2)
       \<longrightarrow> S \<in> set (scoped_to (snd (post_webhook l cfg k now b
            (fst (subscribe S (JArr (map JStr ts2)) (fst (subscribe S (JArr (map JStr ts1)) st))))))))"
proof -
  let ?st1 = "fst (subscribe S (JArr (map JStr ts1)) st)"
  let ?st2 = "fst (subscribe S (JArr (map JStr ts2)) ?st1)"
  have id: "S \<in> fst ` set (sockets st)"
    using assms(2) by force
  have r1: "reachable ?st1"
    using assms(1) id by (rule reachable.subscribes)
  have d0: "distinct (map fst (sockets st))"
    using reachable_registry_ok [OF assms(1)] by (simp add: registry_ok_def)
  have d1: "distinct (map fst (sockets ?st1))"
    using reachable_registry_ok [OF r1] by (simp add: registry_ok_def)
  have m1: "(S, rooms \<union> JStr ` set ts1) \<in> set (sockets ?st1)"
    using d0 assms(2) by (rule subscribe_rooms)
  have m2: "(S, rooms \<union> JStr ` set ts1 \<union> JStr ` set ts2) \<in> set (sockets ?st2)"
    using d1 m1 by (rule subscribe_rooms)
  have id1: "S \<in> fst ` set (sockets ?st1)"
    using m1 by force
  have r2: "reachable ?st2"
    using r1 id1 by (rule reachable.subscribes)
  have m3: "status (response (snd (post_webhook l cfg k now b ?st2))) = 200
         \<and> broadcast (snd (post_webhook l cfg k now b ?st2)) = Some ev
         \<and> ev_type ev = Some (JStr T) \<and> (T \<in> set ts1 \<or> T \<in> set ts2)
       \<longrightarrow> S \<in> set (scoped_to (snd (post_webhook l cfg k now b ?st2)))"
  proof
    assume h: "status (response (snd (post_webhook l cfg k now b ?st2))) = 200
         \<and> broadcast (snd (post_webhook l cfg k now b ?st2)) = Some ev
         \<and> ev_type ev = Some (JStr T) \<and> (T \<in> set ts1 \<or> T \<in> set ts2)"
    then have b: "broadcast (snd (post_webhook l cfg k now b ?st2)) = Some ev"
      and ok: "status (response (snd (post_webhook l cfg k now b ?st2))) = 200"
      by simp_all
    from scoped_to_member(1) [OF r2 m2 b ok] h
    show "S \<in> set (scoped_to (snd (post_webhook l cfg k now b ?st2)))"
      by auto
  qed
  from m1 m2 m3 show ?thesis by blast
qed

lemma build_event_call_verified:
  "build_event (lib_verified p) now payload_call =
     Inr \<lparr>ev_type = Some (JStr ''call.created''), ev_data = JObj [(''call_id'', JStr ''test-1'')],
          ev_timestamp = ''2025-10-05T00:00:00.000Z''\<rparr>"
  by (simp add: build_event_call) (simp add: lib_verified_def)

text \<open>
  C5 (as the spec states it, refuted): a subscribe request is said to replace the previous
  subscription. Here \<open>s1\<close> subscribes to \<open>call.created\<close> and then to \<open>sms.inbound\<close>; a
  \<open>call.created\<close> event that is accepted afterwards still reaches it on the type-scoped
  channel.
\<close>

theorem C5_replace_counterexample:
  "subscribed_twice =
     fst (subscribe ''s1'' (JArr [JStr ''sms.inbound''])
       (fst (subscribe ''s1'' (JArr [JStr ''call.created'']) one_client)))
   \<and> broadcast (snd (post_webhook (lib_verified payload_call) cfg0 ''ip'' 1000 (Text ''abc.def.ghi'')
        subscribed_twice))
       = Some \<lparr>ev_type = Some (JStr ''call.created''), ev_data = JObj [(''call_id'', JStr ''test-1'')],
               ev_timestamp = ''2025-10-05T00:00:00.000Z''\<rparr>
   \<and> scoped_to (snd (post_webhook (lib_verified payload_call) cfg0 ''ip'' 1000 (Text ''abc.def.ghi'')
        subscribed_twice)) = [''s1'']"
  by (simp add: post_webhook_example [OF subscribed_twice_fields(2) build_event_call_verified not_reserved_call]
      subscribed_twice_sockets io_to_emit_def)
     (simp add: subscribed_twice_def)

theorem C5_subscribe_merges_witness:
  "reachable one_client \<and> (''s1'', {JStr ''s1''}) \<in> set (sockets one_client)
   \<and> status (response (snd (post_webhook (lib_verified payload_call) cfg0 ''ip'' 1000
          (Text ''abc.def.ghi'') subscribed_twice))) = 200
   \<and> (''s1'', {JStr ''s1''} \<union> JStr ` set [''call.created''] \<union> JStr ` set [''sms.inbound''])
        \<in> set (sockets subscribed_twice)
   \<and> ''s1'' \<in> set (scoped_to (snd (post_webhook (lib_verified payload_call) cfg0 ''ip'' 1000
          (Text ''abc.def.ghi'') subscribed_twice)))"
proof -
  let ?ev = "\<lparr>ev_type = Some (JStr ''call.created''), ev_data = JObj [(''call_id'', JStr ''test-1'')],
               ev_timestamp = ''2025-10-05T00:00:00.000Z''\<rparr>"
  have h1: "reachable one_client"
    by (rule reachable_one_client)
  have h2: "(''s1'', {JStr ''s1''}) \<in> set (sockets one_client)"
    by (simp add: one_client_sockets)
  have h3: "broadcast (snd (post_webhook (lib_verified payload_call) cfg0 ''ip'' 1000
          (Text ''abc.def.ghi'') subscribed_twice)) = Some ?ev"
    "status (response (snd (post_webhook (lib_verified payload_call) cfg0 ''ip'' 1000
          (Text ''abc.def.ghi'') subscribed_twice))) = 200"
    by (simp_all add: post_webhook_example
        [OF subscribed_twice_fields(2) build_event_call_verified not_reserved_call])
  note t = C5_subscribe_merges [OF h1 h2, where ?ts1.0 = "[''call.created'']"
      and ?ts2.0 = "[''sms.inbound'']" and l = "lib_verified payload_call" and cfg = cfg0
      and k = "''ip''" and now = 1000 and b = "Text ''abc.def.ghi''" and ev = ?ev
      and T = "''call.created''"]
  from t h1 h2 h3 show ?thesis
    by (simp add: subscribed_twice_def)
qed

subsection \<open>Normalisation\<close>

lemma webhook_verified:
  assumes "check_token l cfg (read_token l b) = Continue decoded"
    and "build_event l now decoded = Inr ev"
  shows "webhook l cfg now b st = deliver l cfg now ev st"
  using assms by (simp add: webhook_def)

text \<open>
  C7 (amended): for every verified payload that lacks a \<open>type\<close> field, normalisation does
  not fail: the envelope is built with an absent type, the global message is delivered to
  every connected consumer and the answer is 200. Only the type-scoped emission reaches no
  one.
\<close>

theorem C7_missing_type_is_broadcast:
  assumes "check_token l cfg (read_token l b) = Continue decoded"
    and "get_prop decoded ''type'' = Inr None"
  shows "map_option ev_type (broadcast (snd (webhook l cfg now b st))) = Some None
     \<and> status (response (snd (webhook l cfg now b st))) = 200
     \<and> global_to (snd (webhook l cfg now b st)) = map fst (sockets st)
     \<and> scoped_to (snd (webhook l cfg now b st)) = []"
proof -
  from assms(2) obtain d where d: "get_prop decoded ''data'' = Inr d"
    by (cases decoded) simp_all
  define ev where "ev = \<lparr>ev_type = None,
     ev_data = (case d of None \<Rightarrow> decoded | Some v \<Rightarrow> if truthy v then v else decoded),
     ev_timestamp = toISOString l now\<rparr>"
  have "build_event l now decoded = Inr ev"
    using assms(2) d by (simp add: build_event_def ev_def)
  with assms(1) have "webhook l cfg now b st = deliver l cfg now ev st"
    by (rule webhook_verified)
  moreover have "\<not> reserved (ev_type ev)"
    by (simp add: ev_def reserved_def)
  ultimately show ?thesis
    by (simp add: deliver_def io_emit_def io_to_emit_def) (simp add: ev_def)
qed

lemma build_event_no_type:
  "build_event (lib_verified p) now payload_no_type =
     Inr \<lparr>ev_type = None, ev_data = JObj [(''call_id'', JStr ''test-1'')],
          ev_timestamp = ''2025-10-05T00:00:00.000Z''\<rparr>"
  by (simp add: build_event_def payload_no_type_def lib_verified_def)

text \<open>
  C7 (as the spec states it, refuted): a verified payload without \<open>type\<close> is said to fail
  with MissingEventType and not to be broadcast. Here such a payload is answered with 200
  and its envelope, whose type is \<open>undefined\<close>, is delivered to the connected consumer
  \<open>s1\<close>.
\<close>

theorem C7_missing_type_counterexample:
  "get_prop payload_no_type ''type'' = Inr None
   \<and> snd (post_webhook (lib_verified payload_no_type) cfg0 ''ip'' 1000 (Text ''abc.def.ghi'') one_client)
      = \<lparr>response =
           \<lparr>status = 200,
            body = [(''success'', JBool True), (''broadcasted'', JNum 1),
                    (''received'', JStr ''2025-10-05T00:00:00.000Z'')]\<rparr>,
         broadcast = Some \<lparr>ev_type = None, ev_data = JObj [(''call_id'', JStr ''test-1'')],
                           ev_timestamp = ''2025-10-05T00:00:00.000Z''\<rparr>,
         global_to = [''s1''],
         scoped_to = []\<rparr>"
  by (simp add: post_webhook_example [OF one_client_fields(3) build_event_no_type not_reserved_none]
      one_client_sockets one_client_fields io_to_emit_def)
     (simp add: payload_no_type_def)

theorem C7_missing_type_is_broadcast_witness:
  "check_token (lib_verified payload_no_type) cfg0
      (read_token (lib_verified payload_no_type) (Text ''abc.def.ghi'')) = Continue payload_no_type
   \<and> get_prop payload_no_type ''type'' = Inr None
   \<and> map_option ev_type (broadcast (snd (webhook (lib_verified payload_no_type) cfg0 1000
         (Text ''abc.def.ghi'') one_client))) = Some None
   \<and> status (response (snd (webhook (lib_verified payload_no_type) cfg0 1000
         (Text ''abc.def.ghi'') one_client))) = 200
   \<and> global_to (snd (webhook (lib_verified payload_no_type) cfg0 1000 (Text ''abc.def.ghi'')
         one_client)) = [''s1'']"
proof -
  have h1: "check_token (lib_verified payload_no_type) cfg0
      (read_token (lib_verified payload_no_type) (Text ''abc.def.ghi'')) = Continue payload_no_type"
    by (simp add: read_token_example check_token_verified)
  have h2: "get_prop payload_no_type ''type'' = Inr None"
    by (simp add: payload_no_type_def)
  from C7_missing_type_is_broadcast [OF h1 h2, of 1000 one_client] h1 h2 show ?thesis
    by (simp add: one_client_sockets)
qed






text \<open>
  C6 (the code at the failing input): a token that splits into exactly three segments and
  whose header segment does not decode to JSON should be answered with 400. In the code
  \<open>JSON.parse\<close> throws a \<open>SyntaxError\<close> inside the \<open>try\<close> block, the \<open>catch\<close> block knows
  only \<open>JsonWebTokenError\<close> and \<open>TokenExpiredError\<close> by name, and the request is answered
  with 500, \<open>Internal server error\<close>, while the token with a wrong number of segments is
  answered with 400 two lines earlier.
\<close>

theorem C6_undecodable_header_is_500:
  assumes "secret_of cfg = Some secret"
    and "length (split_dot (read_token l b)) = 3"
    and "parse_header l (hd (split_dot (read_token l b))) = Inl message"
  shows "webhook l cfg now b st =
           (st, answer_only
              \<lparr>status = 500,
               body = (''error'', JStr ''Internal server error'') #
                 (if DEBUG cfg then [(''details'', JStr message)] else [])\<rparr>)
     \<and> status (response (snd (webhook l cfg now b st))) = 500
     \<and> status (response (snd (webhook l cfg now b st))) \<noteq> 400"
proof -
  have ne: "read_token l b \<noteq> []"
    using assms(2) by auto
  have "check_token l cfg (read_token l b) = Throw (Error ''SyntaxError'' message)"
    using assms ne by (simp add: check_token_def del: secret_of.simps)
  then show ?thesis
    by (simp add: webhook_def catch_error_def answer_only_def)
qed

theorem C6_undecodable_header_is_500_witness:
  "secret_of cfg0 = Some ''dp_call_logs''
   \<and> length (split_dot (read_token lib_bad_header (Text ''abc.def.ghi''))) = 3
   \<and> parse_header lib_bad_header (hd (split_dot (read_token lib_bad_header (Text ''abc.def.ghi''))))
        = Inl ''Unexpected token i in JSON at position 0''
   \<and> snd (webhook lib_bad_header cfg0 1000 (Text ''abc.def.ghi'') one_client)
        = \<lparr>response = \<lparr>status = 500, body = [(''error'', JStr ''Internal server error'')]\<rparr>,
           broadcast = None, global_to = [], scoped_to = []\<rparr>"
proof -
  have h1: "secret_of cfg0 = Some ''dp_call_logs''"
    by (simp add: cfg0_def)
  have h2: "length (split_dot (read_token lib_bad_header (Text ''abc.def.ghi''))) = 3"
    by (simp add: read_token_example)
  have h3: "parse_header lib_bad_header (hd (split_dot (read_token lib_bad_header (Text ''abc.def.ghi''))))
        = Inl ''Unexpected token i in JSON at position 0''"
    by (simp add: lib_bad_header_def)
  have d: "\<not> DEBUG cfg0"
    by (simp add: cfg0_def)
  from C6_undecodable_header_is_500 [OF h1 h2 h3, of 1000 one_client] h1 h2 h3 d show ?thesis
    by (simp add: answer_only_def)
qed

subsection \<open>The answer of the limiter\<close>

text \<open>
  C1 (amended): for every webhook submission rejected for capacity (429), the \<open>retryAfter\<close>
  value in the response body is the length of the whole window in seconds, rounded up:
  \<open>ceil(RATE_LIMIT_WINDOW_MS / 1000) = 60\<close>, a constant that does not depend on how far
  the window has progressed. A submission is answered with 429 exactly when the limiter
  rejects it, and nothing is broadcast then.
\<close>

theorem C1_retryAfter_is_window_length:
  "(status (response (snd (post_webhook l cfg k now b st))) = 429 \<longleftrightarrow> \<not> fst (tryAdmit cfg k now st))
   \<and> (\<not> fst (tryAdmit cfg k now st) \<longrightarrow>
        body_field (snd (post_webhook l cfg k now b st)) ''retryAfter''
          = Some (JNum (of_int \<lceil>real_of_int RATE_LIMIT_WINDOW_MS / 1000\<rceil>))
        \<and> body_field (snd (post_webhook l cfg k now b st)) ''retryAfter'' = Some (JNum 60)
        \<and> broadcast (snd (post_webhook l cfg k now b st)) = None)
   \<and> map_of (body (snd (limit_handler cfg now st))) ''retryAfter'' = Some (JNum 60)"
proof -
  have a: "status (response (snd (post_webhook l cfg k now b st))) = 429
             \<longleftrightarrow> \<not> fst (tryAdmit cfg k now st)"
    by (rule post_webhook_429)
  have b: "\<not> fst (tryAdmit cfg k now st) \<longrightarrow>
        body_field (snd (post_webhook l cfg k now b st)) ''retryAfter''
          = Some (JNum (of_int \<lceil>real_of_int RATE_LIMIT_WINDOW_MS / 1000\<rceil>))
        \<and> body_field (snd (post_webhook l cfg k now b st)) ''retryAfter'' = Some (JNum 60)
        \<and> broadcast (snd (post_webhook l cfg k now b st)) = None"
    by (simp add: post_webhook_rejected body_field_def answer_only_def limit_handler_response
        ceil_window)
  have c: "map_of (body (snd (limit_handler cfg now st))) ''retryAfter'' = Some (JNum 60)"
    by (rule limit_handler_response)
  from a b c show ?thesis by blast
qed

lemma after_first_post_window:
  "windows after_first_post ''ip'' = Some \<lparr>windowStart = 0, count = 1\<rparr>"
proof -
  have w: "windows init_state = (\<lambda>k. None)"
    by (simp add: init_state_def)
  have a: "fst (tryAdmit cfg1 ''ip'' 0 init_state)"
    by (simp add: tryAdmit_def RATE_LIMIT_MAX_def cfg1_def w)
  have "windows (fst (webhook l cfg now b st)) = windows st" for l cfg now b st
    using webhook_cases [of l cfg b now st] by (auto simp: deliver_def)
  then show ?thesis
    by (simp add: after_first_post_def post_webhook_admitted [OF a])
       (simp add: tryAdmit_def RATE_LIMIT_MAX_def cfg1_def w)
qed

lemma reachable_after_first_post: "reachable after_first_post"
  unfolding after_first_post_def by (rule reachable.posts [OF reachable.start])

lemma second_post_rejected: "\<not> fst (tryAdmit cfg1 ''ip'' 30000 after_first_post)"
  by (simp add: tryAdmit_def after_first_post_window RATE_LIMIT_MAX_def cfg1_def
      RATE_LIMIT_WINDOW_MS_def)

text \<open>
  C1 (as the spec states it, refuted): \<open>retryAfter\<close> is said to be the time remaining in
  the current window. Here the limit is one request per minute, the window opened at time
  0 and a second request arrives 30 seconds later: 30 seconds remain, and the body of the
  429 answer says \<open>retryAfter: 60\<close>.
\<close>

theorem C1_remaining_time_counterexample:
  "reachable after_first_post
   \<and> status (response (snd (post_webhook (lib_verified payload_call) cfg1 ''ip'' 30000
        (Text ''abc.def.ghi'') after_first_post))) = 429
   \<and> body_field (snd (post_webhook (lib_verified payload_call) cfg1 ''ip'' 30000
        (Text ''abc.def.ghi'') after_first_post)) ''retryAfter'' = Some (JNum 60)
   \<and> window_remaining ''ip'' 30000 after_first_post = 30000
   \<and> \<lceil>real_of_int (window_remaining ''ip'' 30000 after_first_post) / 1000\<rceil> = 30"
proof -
  have r: "window_remaining ''ip'' 30000 after_first_post = 30000"
    by (simp add: window_remaining_def after_first_post_window RATE_LIMIT_WINDOW_MS_def)
  show ?thesis
    by (simp add: reachable_after_first_post post_webhook_rejected [OF second_post_rejected]
        answer_only_def limit_handler_response body_field_def r)
qed

theorem C1_retryAfter_is_window_length_witness:
  "\<not> fst (tryAdmit cfg1 ''ip'' 30000 after_first_post)
   \<and> status (response (snd (post_webhook (lib_verified payload_call) cfg1 ''ip'' 30000
        (Text ''abc.def.ghi'') after_first_post))) = 429
   \<and> body_field (snd (post_webhook (lib_verified payload_call) cfg1 ''ip'' 30000
        (Text ''abc.def.ghi'') after_first_post)) ''retryAfter'' = Some (JNum 60)"
  using C1_retryAfter_is_window_length [of "lib_verified payload_call" cfg1 "''ip''" 30000
      "Text ''abc.def.ghi''" after_first_post] second_post_rejected
  by (simp add: ceil_window)

subsection \<open>The broadcast reaches every registered consumer\<close>





end
